theory Spec2Isabelle
  imports Complex_Main "HOL-Library.AList" "HOL-Library.Multiset"
begin

section \<open>ExecutorAbiForm and SerializerWorkspace\<close>

text \<open>
  A shallow embedding of the two components of
  \<^verbatim>\<open>src/components/ExecutorAbiForm.vue\<close>: the Vue form that loads, validates
  and stores contract ABIs, and the React workspace that decodes an ABI.
  Every handler of the source is a function from the component state to the
  component state. What the browser and the external module \<^verbatim>\<open>@core\<close>
  compute (validation, network, file reading, collation, JSON) is not part of the
  repository: it is passed to the handlers in the record \<open>env\<close>.
\<close>

subsection \<open>Exceptions\<close>

text \<open>
  A thrown value is either an \<^verbatim>\<open>Error\<close> built by the component with a message,
  or a value thrown by the environment, of which the component only ever uses
  \<^verbatim>\<open>toString()\<close>.
\<close>

datatype exn = Error string | Foreign string

fun toString :: "exn \<Rightarrow> string" where
  "toString (Error m) = (if m = [] then ''Error'' else ''Error: '' @ m)"
| "toString (Foreign s) = s"

subsection \<open>String helpers\<close>

text \<open>\<^verbatim>\<open>s.split(c).shift()\<close>: the part of \<open>s\<close> before the first \<open>c\<close>.\<close>

definition split_shift :: "char \<Rightarrow> string \<Rightarrow> string" where
  "split_shift c s = takeWhile (\<lambda>x. x \<noteq> c) s"

text \<open>\<^verbatim>\<open>s.split(c).pop()\<close>: the part of \<open>s\<close> after the last \<open>c\<close>.\<close>

definition split_pop :: "char \<Rightarrow> string \<Rightarrow> string" where
  "split_pop c s = rev (takeWhile (\<lambda>x. x \<noteq> c) (rev s))"

definition endsWith :: "string \<Rightarrow> string \<Rightarrow> bool" where
  "endsWith s suf = (length suf \<le> length s \<and> drop (length s - length suf) s = suf)"

text \<open>\<^verbatim>\<open>s.replace(/\.(tsol|sol|fc|fif)$/, '')\<close>\<close>

definition strip_ext :: "string \<Rightarrow> string" where
  "strip_ext s =
     (if endsWith s ''.tsol'' then take (length s - 5) s
      else if endsWith s ''.sol'' then take (length s - 4) s
      else if endsWith s ''.fc'' then take (length s - 3) s
      else if endsWith s ''.fif'' then take (length s - 4) s
      else s)"

subsection \<open>Sorting with a comparator\<close>

text \<open>
  \<^verbatim>\<open>Array.prototype.sort(compare)\<close> is stable: an element goes before the first
  element of the sorted rest that does not compare below it.
\<close>

fun insort_cmp :: "('a \<Rightarrow> 'a \<Rightarrow> int) \<Rightarrow> 'a \<Rightarrow> 'a list \<Rightarrow> 'a list" where
  "insort_cmp c x [] = [x]"
| "insort_cmp c x (y # ys) = (if c x y \<le> 0 then x # y # ys else y # insort_cmp c x ys)"

definition sort_cmp :: "('a \<Rightarrow> 'a \<Rightarrow> int) \<Rightarrow> 'a list \<Rightarrow> 'a list" where
  "sort_cmp c xs = foldr (insort_cmp c) xs []"

subsection \<open>localStorage\<close>

text \<open>
  The storage is a list of key-value pairs with distinct keys, in the order in
  which the storage enumerates them. \<^verbatim>\<open>setItem\<close> overwrites the value of a key
  that is present and appends a new key; the storage quota is not modelled.
\<close>

type_synonym storage = "(string \<times> string) list"

definition getItem :: "storage \<Rightarrow> string \<Rightarrow> string option" where
  "getItem ls k = map_of ls k"

definition setItem :: "string \<Rightarrow> string \<Rightarrow> storage \<Rightarrow> storage" where
  "setItem k v ls = AList.update k v ls"

definition removeItem :: "string \<Rightarrow> storage \<Rightarrow> storage" where
  "removeItem k ls = AList.delete k ls"

text \<open>
  \<^verbatim>\<open>Object.keys(localStorage)\<close> lists the stored keys that are visible as
  properties of the storage object. A stored key is not visible when the
  prototype chain of the object has a property of that name; the chain is
  \<^verbatim>\<open>Storage.prototype\<close>, then \<^verbatim>\<open>Object.prototype\<close>. Such a key is still read,
  written and removed by \<open>getItem\<close>, \<open>setItem\<close> and \<open>removeItem\<close>.
\<close>

definition prototype_properties :: "string list" where
  "prototype_properties =
     [''length'', ''key'', ''getItem'', ''setItem'', ''removeItem'', ''clear'',
      ''constructor'', ''hasOwnProperty'', ''isPrototypeOf'', ''propertyIsEnumerable'',
      ''toLocaleString'', ''toString'', ''valueOf'', ''__proto__'',
      ''__defineGetter__'', ''__defineSetter__'', ''__lookupGetter__'', ''__lookupSetter__'']"

definition keys :: "storage \<Rightarrow> string list" where
  "keys ls = filter (\<lambda>k. k \<notin> set prototype_properties) (map fst ls)"

subsection \<open>JSON values\<close>

text \<open>
  The value that \<^verbatim>\<open>res.json()\<close> and \<^verbatim>\<open>JSON.parse\<close> produce. An object is the
  list of its own properties.
\<close>

datatype json =
    JNull
  | JBool bool
  | JNum rat
  | JStr string
  | JArr "json list"
  | JObj "(string \<times> json) list"

text \<open>A property read \<^verbatim>\<open>v.k\<close>; \<open>None\<close> is \<^verbatim>\<open>undefined\<close>.\<close>

fun get_prop :: "json \<Rightarrow> string \<Rightarrow> json option" where
  "get_prop (JObj kvs) k = map_of kvs k"
| "get_prop _ k = None"

text \<open>JavaScript truthiness.\<close>

fun truthy :: "json \<Rightarrow> bool" where
  "truthy JNull = False"
| "truthy (JBool b) = b"
| "truthy (JNum n) = (n \<noteq> 0)"
| "truthy (JStr s) = (s \<noteq> [])"
| "truthy (JArr _) = True"
| "truthy (JObj _) = True"

fun truthy_opt :: "json option \<Rightarrow> bool" where
  "truthy_opt None = False"
| "truthy_opt (Some v) = truthy v"

subsection \<open>Component data\<close>

datatype LoadAbiType = FROM_FILE | FROM_TEXT | FROM_LINK | FROM_ZIP

type_synonym bytes = "nat list"

datatype jsfile = File (name: string) (file_bytes: bytes)

record zip_input =
  zip_file :: "jsfile option"
  zip_link :: "string option"

text \<open>The object held by \<^verbatim>\<open>fieldsInput\<close>; an absent property is \<open>None\<close>.\<close>

record fields =
  f_file :: "jsfile option"
  f_text :: "string option"
  f_link :: "string option"
  f_zip :: "zip_input option"

definition no_fields :: fields where
  "no_fields = \<lparr>f_file = None, f_text = None, f_link = None, f_zip = None\<rparr>"

record zip_entry =
  entry_filename :: string
  entry_text :: string

record ZipContent =
  filename :: string
  files :: "zip_entry list"

text \<open>
  One run of the first watcher's callback that got as far as \<^verbatim>\<open>fetch\<close>: its
  closure variables \<^verbatim>\<open>localState.codeHashChanged\<close>, the state of its
  \<^verbatim>\<open>AbortController\<close>, the requested URL and the captured \<^verbatim>\<open>address\<close>.
\<close>

record fetch_run =
  codeHashChanged :: bool
  aborted :: bool
  url :: string
  run_address :: string

text \<open>
  The state of the form: the props, the refs of the script, the storage and
  the document title the component writes, the events emitted so far
  (\<open>None\<close> is a \<^verbatim>\<open>null\<close> or \<^verbatim>\<open>undefined\<close> payload), the watcher runs
  and the index of the run whose \<^verbatim>\<open>onCleanup\<close> function is registered.
\<close>

record state =
  address :: "string option"
  codeHash :: "string option"
  localStorage :: storage
  title :: string
  modalType :: "LoadAbiType option"
  abiNameInput :: string
  fieldsInput :: fields
  everscanAbi :: "string option"
  error :: "string option"
  storedAbi :: "string list"
  abiFilter :: string
  selectedAbi :: "string option"
  abiSelectorVisible :: bool
  inProgress :: bool
  emitted :: "string option list"
  fetches :: "fetch_run list"
  cleanup :: "nat option"

text \<open>What the component calls but does not define.\<close>

record env =
  checkAbi :: "string \<Rightarrow> exn option"
  compare :: "string \<Rightarrow> string \<Rightarrow> int"
  localeCompare :: "string \<Rightarrow> string \<Rightarrow> int"
  newURL :: "string \<Rightarrow> exn + string"
  rewriteAbiUrl :: "string \<Rightarrow> string"
  fetch_text :: "string \<Rightarrow> exn + string"
  fetch_arrayBuffer :: "string \<Rightarrow> exn + bytes"
  arrayBuffer :: "jsfile \<Rightarrow> exn + bytes"
  readAsText :: "jsfile \<Rightarrow> exn + string option"
  unzipSync :: "bytes \<Rightarrow> exn + (string \<times> bytes) list"
  today :: string
  convertAddress :: "string \<Rightarrow> string"
  JSON_stringify :: "json \<Rightarrow> string"

text \<open>
  \<open>checkAbi e t = Some x\<close>: \<^verbatim>\<open>core.checkAbi(t)\<close> throws \<open>x\<close>.
  \<open>compare\<close> is \<^verbatim>\<open>COLLATOR.compare\<close>, \<open>localeCompare\<close> the comparison of
  \<^verbatim>\<open>loadZipContent\<close>. \<open>newURL\<close> is \<^verbatim>\<open>new URL(link)\<close> followed by
  \<^verbatim>\<open>toString()\<close>. An \<open>Inl\<close> result of the network and file functions is a
  rejected promise. \<open>readAsText e f = Inr None\<close>: the reader loaded and its
  result is \<^verbatim>\<open>null\<close> or \<^verbatim>\<open>undefined\<close>. \<open>today\<close> is
  \<^verbatim>\<open>new Date().toISOString().split('T')[0]\<close>.
\<close>

subsection \<open>The handlers of the form\<close>

definition DEFAULT_ABI_NAME :: string where
  "DEFAULT_ABI_NAME = ''abi1''"

definition getAllAbis :: "env \<Rightarrow> storage \<Rightarrow> string list" where
  "getAllAbis e ls = sort_cmp (compare e) (keys ls)"

definition emit :: "string option \<Rightarrow> state \<Rightarrow> state" where
  "emit abi s = s\<lparr>emitted := emitted s @ [abi]\<rparr>"

definition onSelectAbi :: "string \<Rightarrow> state \<Rightarrow> state" where
  "onSelectAbi nm s =
     (let text = getItem (localStorage s) nm
      in emit text
           (s\<lparr>selectedAbi := (if text \<noteq> None then Some nm else None),
              abiSelectorVisible := False\<rparr>))"

definition onDeleteAbi :: "env \<Rightarrow> string \<Rightarrow> state \<Rightarrow> state" where
  "onDeleteAbi e nm s =
     (let ls = removeItem nm (localStorage s)
      in s\<lparr>localStorage := ls, storedAbi := getAllAbis e ls\<rparr>)"

definition closeModal :: "state \<Rightarrow> state" where
  "closeModal s = s\<lparr>modalType := None, fieldsInput := no_fields, error := None\<rparr>"

text \<open>The change handlers get the first selected file, if there is one.\<close>

definition onChangeFile :: "jsfile option \<Rightarrow> state \<Rightarrow> state" where
  "onChangeFile fo s =
     (case fo of None \<Rightarrow> s
      | Some f \<Rightarrow> s\<lparr>fieldsInput := no_fields\<lparr>f_file := Some f\<rparr>\<rparr>)"

definition onChangeZipFile :: "jsfile option \<Rightarrow> state \<Rightarrow> state" where
  "onChangeZipFile fo s =
     (case fo of None \<Rightarrow> s
      | Some f \<Rightarrow>
          s\<lparr>fieldsInput := no_fields\<lparr>f_zip := Some \<lparr>zip_file = Some f, zip_link = None\<rparr>\<rparr>\<rparr>)"

definition onChangeText :: "string \<Rightarrow> state \<Rightarrow> state" where
  "onChangeText v s = s\<lparr>fieldsInput := no_fields\<lparr>f_text := Some v\<rparr>\<rparr>"

definition onChangeLink :: "string \<Rightarrow> state \<Rightarrow> state" where
  "onChangeLink v s = s\<lparr>fieldsInput := no_fields\<lparr>f_link := Some v\<rparr>\<rparr>"

definition onChangeZipLink :: "string \<Rightarrow> state \<Rightarrow> state" where
  "onChangeZipLink v s =
     s\<lparr>fieldsInput := no_fields\<lparr>f_zip := Some \<lparr>zip_file = None, zip_link = Some v\<rparr>\<rparr>\<rparr>"

definition onToggleAbiSelector :: "state \<Rightarrow> state" where
  "onToggleAbiSelector s =
     s\<lparr>abiSelectorVisible := \<not> abiSelectorVisible s, abiFilter := []\<rparr>"

definition onHideAbiSelector :: "state \<Rightarrow> state" where
  "onHideAbiSelector s = s\<lparr>abiFilter := [], abiSelectorVisible := False\<rparr>"

subsection \<open>Loading\<close>

text \<open>
  \<^verbatim>\<open>loadAbiText\<close>: the pasted text, else the body behind the link, else the
  contents of the file. \<^verbatim>\<open>content || ''\<close> turns a missing result into the empty
  string and leaves every string as it is.
\<close>

definition loadAbiText :: "env \<Rightarrow> fields \<Rightarrow> exn + string" where
  "loadAbiText e fi =
     (case f_text fi of
        Some t \<Rightarrow> Inr t
      | None \<Rightarrow>
          (case f_link fi of
             Some l \<Rightarrow>
               (case newURL e l of
                  Inl x \<Rightarrow> Inl x
                | Inr u \<Rightarrow> fetch_text e (rewriteAbiUrl e u))
           | None \<Rightarrow>
               (case f_file fi of
                  Some f \<Rightarrow>
                    (case readAsText e f of
                       Inl x \<Rightarrow> Inl x
                     | Inr content \<Rightarrow> Inr (case content of None \<Rightarrow> [] | Some c \<Rightarrow> c))
                | None \<Rightarrow> Inl (Error ''No ABI input specified''))))"

text \<open>The readers of \<^verbatim>\<open>loadZipContent\<close>, one per archive entry.\<close>

fun read_entries :: "env \<Rightarrow> (string \<times> bytes) list \<Rightarrow> exn + zip_entry list" where
  "read_entries e [] = Inr []"
| "read_entries e ((fn, uint8) # xs) =
     (case readAsText e (File fn uint8) of
        Inl x \<Rightarrow> Inl x
      | Inr r \<Rightarrow>
          (case read_entries e xs of
             Inl x \<Rightarrow> Inl x
           | Inr rs \<Rightarrow>
               Inr (\<lparr>entry_filename = fn,
                     entry_text = (case r of None \<Rightarrow> [] | Some t \<Rightarrow> t)\<rparr> # rs)))"

text \<open>\<^verbatim>\<open>loadZipContent\<close> from the buffer on: unzip, read, name, sort.\<close>

definition unzip_content :: "env \<Rightarrow> string \<Rightarrow> exn + bytes \<Rightarrow> exn + ZipContent" where
  "unzip_content e fname buffer =
     (case buffer of
        Inl x \<Rightarrow> Inl x
      | Inr b \<Rightarrow>
          (case unzipSync e b of
             Inl x \<Rightarrow> Inl x
           | Inr zipContents \<Rightarrow>
               (case read_entries e zipContents of
                  Inl x \<Rightarrow> Inl x
                | Inr filesData \<Rightarrow>
                    Inr \<lparr>filename = fname,
                         files = sort_cmp
                           (\<lambda>x y. localeCompare e (entry_filename x) (entry_filename y))
                           filesData\<rparr>)))"

text \<open>
  \<^verbatim>\<open>!zip?.file && !zip?.link\<close> holds when there is no file and the link is missing
  or empty. A file wins over a link.
\<close>

definition loadZipContent :: "env \<Rightarrow> fields \<Rightarrow> exn + ZipContent" where
  "loadZipContent e fi =
     (case f_zip fi of
        None \<Rightarrow> Inl (Error ''No zip link or file specified'')
      | Some z \<Rightarrow>
          (case zip_file z of
             Some f \<Rightarrow> unzip_content e (name f) (arrayBuffer e f)
           | None \<Rightarrow>
               (case zip_link z of
                  None \<Rightarrow> Inl (Error ''No zip link or file specified'')
                | Some l \<Rightarrow>
                    if l = [] then Inl (Error ''No zip link or file specified'')
                    else unzip_content e (split_pop CHR ''/'' l) (fetch_arrayBuffer e l))))"

subsection \<open>Processing an archive\<close>

text \<open>The \<^verbatim>\<open>forEach\<close> of \<^verbatim>\<open>processZipContent\<close>: the first entry that fails throws.\<close>

definition processing_error :: "string \<Rightarrow> exn \<Rightarrow> exn" where
  "processing_error fname err =
     Error (''Processing error for '' @ [CHR 0x27] @ fname @ [CHR 0x27]
            @ '' file. Internal '' @ toString err)"

fun check_files :: "env \<Rightarrow> zip_entry list \<Rightarrow> exn option" where
  "check_files e [] = None"
| "check_files e (abiFile # rest) =
     (case checkAbi e (entry_text abiFile) of
        Some err \<Rightarrow> Some (processing_error (entry_filename abiFile) err)
      | None \<Rightarrow> check_files e rest)"

definition storageKey :: "string \<Rightarrow> zip_entry \<Rightarrow> string" where
  "storageKey parentFormattedFilename abiFile =
     ''['' @ parentFormattedFilename @ ''] '' @ split_shift CHR ''.'' (entry_filename abiFile)"

text \<open>The \<^verbatim>\<open>map\<close> of \<^verbatim>\<open>processZipContent\<close>: store each entry and collect the pairs.\<close>

fun store_files :: "string \<Rightarrow> zip_entry list \<Rightarrow> storage \<Rightarrow> (string \<times> string) list \<times> storage" where
  "store_files parent [] ls = ([], ls)"
| "store_files parent (abiFile # rest) ls =
     (let key = storageKey parent abiFile;
          text = entry_text abiFile;
          ls1 = setItem key text ls;
          (abis, ls2) = store_files parent rest ls1
      in ((key, text) # abis, ls2))"

definition parentFormattedFilename :: "env \<Rightarrow> ZipContent \<Rightarrow> string" where
  "parentFormattedFilename e zipContent =
     split_shift CHR ''.'' (filename zipContent) @ ''_'' @ today e"

text \<open>The result is what the function returns or throws, and the storage it leaves.\<close>

definition processZipContent ::
  "env \<Rightarrow> ZipContent \<Rightarrow> storage \<Rightarrow> (exn + (string \<times> string) list) \<times> storage" where
  "processZipContent e zipContent ls =
     (if files zipContent = [] then (Inl (Error ''Provided zip archive is empty''), ls)
      else
        (case check_files e (files zipContent) of
           Some x \<Rightarrow> (Inl x, ls)
         | None \<Rightarrow>
             (let (abis, ls1) =
                    store_files (parentFormattedFilename e zipContent) (files zipContent) ls
              in (Inr abis, ls1))))"

subsection \<open>Submitting\<close>

definition onSubmitEverscanAbi :: "state \<Rightarrow> state" where
  "onSubmitEverscanAbi s =
     (case everscanAbi s of Some abi \<Rightarrow> emit (Some abi) s | None \<Rightarrow> s)"

text \<open>
  \<^verbatim>\<open>onSubmit\<close> suspends once, at \<^verbatim>\<open>await loadAbiText()\<close>. \<open>onSubmit_begin\<close> is the
  part before it, \<open>onSubmit_resume\<close> the part after it, run on the state the
  component has when the load settles with \<open>r\<close>: the \<^verbatim>\<open>try\<close> block from the check
  on, the \<^verbatim>\<open>catch\<close> and the \<^verbatim>\<open>finally\<close>. \<open>onSubmit\<close> is a call during whose wait
  no other handler runs.
\<close>

definition onSubmit_begin :: "state \<Rightarrow> state" where
  "onSubmit_begin s = s\<lparr>inProgress := True\<rparr>"

definition onSubmit_try :: "env \<Rightarrow> exn + string \<Rightarrow> state \<Rightarrow> state" where
  "onSubmit_try e r s =
     (case r of
        Inl x \<Rightarrow> s\<lparr>error := Some (toString x)\<rparr>
      | Inr text \<Rightarrow>
          (case checkAbi e text of
             Some x \<Rightarrow> s\<lparr>error := Some (toString x)\<rparr>
           | None \<Rightarrow>
               (let ls = setItem (abiNameInput s) text (localStorage s)
                in closeModal
                     (emit (Some text)
                        (s\<lparr>localStorage := ls,
                           storedAbi := getAllAbis e ls,
                           selectedAbi := Some (abiNameInput s)\<rparr>)))))"

definition onSubmit_resume :: "env \<Rightarrow> exn + string \<Rightarrow> state \<Rightarrow> state" where
  "onSubmit_resume e r s = (onSubmit_try e r s)\<lparr>inProgress := False\<rparr>"

definition onSubmit :: "env \<Rightarrow> state \<Rightarrow> state" where
  "onSubmit e s =
     (if inProgress s then s
      else onSubmit_resume e (loadAbiText e (fieldsInput (onSubmit_begin s))) (onSubmit_begin s))"

text \<open>\<^verbatim>\<open>onSubmitZip\<close>, split at \<^verbatim>\<open>await loadZipContent()\<close> in the same way.\<close>

definition onSubmitZip_try :: "env \<Rightarrow> exn + ZipContent \<Rightarrow> state \<Rightarrow> state" where
  "onSubmitZip_try e r s =
     (case r of
        Inl x \<Rightarrow> s\<lparr>error := Some (toString x)\<rparr>
      | Inr zipContent \<Rightarrow>
          (case processZipContent e zipContent (localStorage s) of
             (Inl x, ls) \<Rightarrow> s\<lparr>localStorage := ls, error := Some (toString x)\<rparr>
           | (Inr abis, ls) \<Rightarrow>
               closeModal
                 (emit (case abis of [] \<Rightarrow> None | a # _ \<Rightarrow> Some (snd a))
                    (s\<lparr>localStorage := ls,
                       storedAbi := getAllAbis e ls,
                       selectedAbi := (case abis of [] \<Rightarrow> None | a # _ \<Rightarrow> Some (fst a))\<rparr>))))"

definition onSubmitZip_resume :: "env \<Rightarrow> exn + ZipContent \<Rightarrow> state \<Rightarrow> state" where
  "onSubmitZip_resume e r s = (onSubmitZip_try e r s)\<lparr>inProgress := False\<rparr>"

definition onSubmitZip :: "env \<Rightarrow> state \<Rightarrow> state" where
  "onSubmitZip e s =
     (if inProgress s then s
      else onSubmitZip_resume e (loadZipContent e (fieldsInput (onSubmit_begin s)))
             (onSubmit_begin s))"

subsection \<open>The watchers\<close>

text \<open>
  The function a run registers with \<^verbatim>\<open>onCleanup\<close>. Vue calls the registered
  function right before the callback of the watcher runs again, and the call
  consumes the registration.
\<close>

definition run_cleanup :: "state \<Rightarrow> state" where
  "run_cleanup s =
     (case cleanup s of
        None \<Rightarrow> s
      | Some i \<Rightarrow>
          if i < length (fetches s)
          then s\<lparr>everscanAbi := None,
                 fetches := (fetches s)[i := (fetches s ! i)\<lparr>codeHashChanged := True, aborted := True\<rparr>],
                 cleanup := None\<rparr>
          else s\<lparr>everscanAbi := None, cleanup := None\<rparr>)"

text \<open>The callback of the first watcher, up to and including the call of \<^verbatim>\<open>fetch\<close>.\<close>

definition watch_callback :: "string option \<Rightarrow> string option \<Rightarrow> state \<Rightarrow> state" where
  "watch_callback ch ad s =
     (case ad of
        None \<Rightarrow> s
      | Some a \<Rightarrow>
          (case ch of
             None \<Rightarrow> s
           | Some c \<Rightarrow>
               s\<lparr>fetches := fetches s @
                    [\<lparr>codeHashChanged = False, aborted = False,
                      url = ''https://verify.everscan.io/info/code_hash/'' @ c,
                      run_address = a\<rparr>],
                 cleanup := Some (length (fetches s))\<rparr>))"

text \<open>One run of the first watcher: the registered cleanup, then the callback.\<close>

definition watch_codeHash :: "string option \<Rightarrow> string option \<Rightarrow> state \<Rightarrow> state" where
  "watch_codeHash ch ad s = watch_callback ch ad (run_cleanup s)"

text \<open>
  The continuation \<^verbatim>\<open>.then(data => ...)\<close> of run \<open>i\<close>, called with the parsed
  response. A \<^verbatim>\<open>contract_name\<close> that is truthy and not a string has no
  \<^verbatim>\<open>split\<close>: the continuation throws there, after the assignment to
  \<^verbatim>\<open>everscanAbi\<close>, and \<^verbatim>\<open>catch(console.error)\<close> takes the exception.
\<close>

definition then_abi :: "env \<Rightarrow> json \<Rightarrow> state \<Rightarrow> state" where
  "then_abi e data s =
     (if truthy data then
        (case get_prop data ''abi'' of
           None \<Rightarrow> s
         | Some abi \<Rightarrow>
             if truthy abi then s\<lparr>everscanAbi := Some (JSON_stringify e abi)\<rparr> else s)
      else s)"

definition then_title :: "env \<Rightarrow> string \<Rightarrow> json \<Rightarrow> state \<Rightarrow> state" where
  "then_title e a data s =
     (if truthy data then
        (case get_prop data ''contract_name'' of
           None \<Rightarrow> s
         | Some cn \<Rightarrow>
             if truthy cn then
               (case cn of
                  JStr c \<Rightarrow>
                    (let shortName = strip_ext (split_pop CHR ''/'' c)
                     in if shortName \<noteq> []
                        then s\<lparr>title := shortName @ '' '' @ convertAddress e a
                                          @ '' | Everscale tools''\<rparr>
                        else s)
                | _ \<Rightarrow> s)
             else s)
      else s)"

definition fetch_then :: "env \<Rightarrow> nat \<Rightarrow> json \<Rightarrow> state \<Rightarrow> state" where
  "fetch_then e i data s =
     (if i < length (fetches s) then
        (if codeHashChanged (fetches s ! i) then s
         else then_title e (run_address (fetches s ! i)) data (then_abi e data s))
      else s)"

text \<open>The second watcher, on \<^verbatim>\<open>selectedAbi\<close> and \<^verbatim>\<open>props.address\<close>.\<close>

definition watch_title :: "env \<Rightarrow> state \<Rightarrow> state" where
  "watch_title e s =
     (case selectedAbi s of
        None \<Rightarrow> s
      | Some abiName \<Rightarrow>
          (case address s of
             None \<Rightarrow> s
           | Some a \<Rightarrow>
               if abiName \<noteq> [] \<and> a \<noteq> []
               then s\<lparr>title := abiName @ '' '' @ convertAddress e a @ '' | Everscale tools''\<rparr>
               else s))"

subsection \<open>Runs of the form\<close>

text \<open>
  What can happen to a mounted form: the parent changes the props, a response
  of the registry arrives for a run, the user acts on the template, a pending
  submit resumes. Each event comes with the environment of its moment.
\<close>

datatype event =
    SetProps "string option" "string option"
  | FetchThen nat json
  | SelectAbi string
  | DeleteAbi string
  | CloseModal
  | SetModalType LoadAbiType
  | SetAbiNameInput string
  | SetAbiFilter string
  | ChangeFile "jsfile option"
  | ChangeZipFile "jsfile option"
  | ChangeText string
  | ChangeLink string
  | ChangeZipLink string
  | ToggleAbiSelector
  | HideAbiSelector
  | SubmitEverscanAbi
  | Submit
  | SubmitZip
  | SubmitBegin
  | SubmitResume "exn + string"
  | SubmitZipResume "exn + ZipContent"

definition setProps :: "string option \<Rightarrow> string option \<Rightarrow> state \<Rightarrow> state" where
  "setProps ch ad s =
     (if ch = codeHash s \<and> ad = address s then s
      else watch_codeHash ch ad (s\<lparr>codeHash := ch, address := ad\<rparr>))"

fun handle :: "env \<Rightarrow> event \<Rightarrow> state \<Rightarrow> state" where
  "handle e (SetProps ch ad) s = setProps ch ad s"
| "handle e (FetchThen i data) s = fetch_then e i data s"
| "handle e (SelectAbi nm) s = onSelectAbi nm s"
| "handle e (DeleteAbi nm) s = onDeleteAbi e nm s"
| "handle e CloseModal s = closeModal s"
| "handle e (SetModalType t) s = s\<lparr>modalType := Some t\<rparr>"
| "handle e (SetAbiNameInput v) s = s\<lparr>abiNameInput := v\<rparr>"
| "handle e (SetAbiFilter v) s = s\<lparr>abiFilter := v\<rparr>"
| "handle e (ChangeFile fo) s = onChangeFile fo s"
| "handle e (ChangeZipFile fo) s = onChangeZipFile fo s"
| "handle e (ChangeText v) s = onChangeText v s"
| "handle e (ChangeLink v) s = onChangeLink v s"
| "handle e (ChangeZipLink v) s = onChangeZipLink v s"
| "handle e ToggleAbiSelector s = onToggleAbiSelector s"
| "handle e HideAbiSelector s = onHideAbiSelector s"
| "handle e SubmitEverscanAbi s = onSubmitEverscanAbi s"
| "handle e Submit s = onSubmit e s"
| "handle e SubmitZip s = onSubmitZip e s"
| "handle e SubmitBegin s = (if inProgress s then s else onSubmit_begin s)"
| "handle e (SubmitResume r) s = onSubmit_resume e r s"
| "handle e (SubmitZipResume r) s = onSubmitZip_resume e r s"

text \<open>An event, then the second watcher when one of its sources has changed.\<close>

definition step :: "env \<times> event \<Rightarrow> state \<Rightarrow> state" where
  "step ev s =
     (let s1 = handle (fst ev) (snd ev) s
      in if selectedAbi s1 \<noteq> selectedAbi s \<or> address s1 \<noteq> address s
         then watch_title (fst ev) s1 else s1)"

text \<open>
  The state after \<^verbatim>\<open>setup\<close>: the initial values of the refs, then both
  watchers, which are \<^verbatim>\<open>immediate\<close>.
\<close>

definition init :: "env \<Rightarrow> storage \<Rightarrow> string \<Rightarrow> string option \<Rightarrow> string option \<Rightarrow> state" where
  "init e ls t ch ad =
     watch_title e
       (watch_codeHash ch ad
          \<lparr>address = ad, codeHash = ch, localStorage = ls, title = t,
           modalType = None, abiNameInput = DEFAULT_ABI_NAME, fieldsInput = no_fields,
           everscanAbi = None, error = None, storedAbi = getAllAbis e ls,
           abiFilter = [], selectedAbi = None, abiSelectorVisible = False,
           inProgress = False, emitted = [], fetches = [], cleanup = None\<rparr>)"

definition exec :: "(env \<times> event) list \<Rightarrow> state \<Rightarrow> state" where
  "exec evs s = foldl (\<lambda>s ev. step ev s) s evs"

subsection \<open>The workspace\<close>

text \<open>
  The state of \<^verbatim>\<open>SerializerWorkspace\<close>, and the handlers on which \<^verbatim>\<open>free()\<close>
  has been called, in the order of the calls. \<open>'h\<close> is
  \<^verbatim>\<open>core.AbiEntityHandler\<close>, \<open>'d\<close> is \<^verbatim>\<open>core.AbiEntity\<close>.
\<close>

record ('h, 'd) SerializerWorkspaceState =
  abiInput :: string
  decodedAbi :: "('h \<times> 'd) option"
  ws_error :: "string option"
  freed :: "'h list"

record ('h, 'd) core =
  parseAbi :: "string \<Rightarrow> exn + 'h"
  handler_data :: "'h \<Rightarrow> 'd"
  JSON_parse :: "string \<Rightarrow> json option"
  JSON_stringify4 :: "json \<Rightarrow> string"

text \<open>
  \<open>JSON_parse c t = None\<close>: \<^verbatim>\<open>JSON.parse(t)\<close> throws.
  \<open>JSON_stringify4 c v\<close> is \<^verbatim>\<open>JSON.stringify(v, undefined, 4)\<close>.
\<close>

definition prepareHandler :: "('h, 'd) core \<Rightarrow> 'h \<Rightarrow> 'h \<times> 'd" where
  "prepareHandler c handler = (handler, handler_data c handler)"

definition prettyPrint :: "('h, 'd) core \<Rightarrow> string \<Rightarrow> string" where
  "prettyPrint c text =
     (case JSON_parse c text of
        Some parsed \<Rightarrow> JSON_stringify4 c parsed
      | None \<Rightarrow> text)"

definition clear ::
  "(('h, 'd) SerializerWorkspaceState \<Rightarrow> ('h, 'd) SerializerWorkspaceState) option
   \<Rightarrow> ('h, 'd) SerializerWorkspaceState \<Rightarrow> ('h, 'd) SerializerWorkspaceState" where
  "clear callback w =
     (let held = decodedAbi w;
          w1 = w\<lparr>decodedAbi := None, ws_error := None\<rparr>;
          w2 = (case held of None \<Rightarrow> w1 | Some d \<Rightarrow> w1\<lparr>freed := freed w1 @ [fst d]\<rparr>)
      in case callback of None \<Rightarrow> w2 | Some f \<Rightarrow> f w2)"

definition setNewAbi ::
  "('h, 'd) core \<Rightarrow> 'h \<Rightarrow> ('h, 'd) SerializerWorkspaceState \<Rightarrow> ('h, 'd) SerializerWorkspaceState" where
  "setNewAbi c handler w =
     clear (Some (\<lambda>w. w\<lparr>decodedAbi := Some (prepareHandler c handler), ws_error := None\<rparr>)) w"

definition handleAbi ::
  "('h, 'd) core \<Rightarrow> string \<Rightarrow> ('h, 'd) SerializerWorkspaceState \<Rightarrow> ('h, 'd) SerializerWorkspaceState" where
  "handleAbi c inp w =
     (let w1 = w\<lparr>abiInput := prettyPrint c inp\<rparr>
      in case parseAbi c inp of
           Inr customAbi \<Rightarrow> setNewAbi c customAbi w1
         | Inl x \<Rightarrow> clear (Some (\<lambda>w. w\<lparr>ws_error := Some (toString x)\<rparr>)) w1)"

subsection \<open>Watcher runs that are live or stale\<close>

text \<open>
  A run is stale once its cleanup has been called. In the states a form can
  reach, every run other than the one whose cleanup is registered is stale
  and aborted, and \<open>everscanAbi\<close> is set only while a cleanup is registered.
\<close>

definition stale :: "nat \<Rightarrow> state \<Rightarrow> bool" where
  "stale i s = (i < length (fetches s) \<and> codeHashChanged (fetches s ! i) \<and> aborted (fetches s ! i))"

definition live_inv :: "state \<Rightarrow> bool" where
  "live_inv s =
     ((\<forall>i<length (fetches s). cleanup s \<noteq> Some i \<longrightarrow> stale i s) \<and>
      (case cleanup s of
         Some i \<Rightarrow> i < length (fetches s)
       | None \<Rightarrow> everscanAbi s = None))"

subsection \<open>A sample environment and sample states\<close>

text \<open>
  Concrete instances on which the theorems below are evaluated: a validator
  that accepts two texts, comparators by length, and a mounted form with one
  stored ABI and one live watcher run.
\<close>

definition env0 :: env where
  "env0 = \<lparr>checkAbi = (\<lambda>t. if t = ''{}'' \<or> t = ''{ }'' then None else Some (Foreign ''invalid abi'')),
           compare = (\<lambda>a b. int (length a) - int (length b)),
           localeCompare = (\<lambda>a b. int (length a) - int (length b)),
           newURL = (\<lambda>l. if l = [] then Inl (Foreign ''TypeError: Invalid URL'') else Inr l),
           rewriteAbiUrl = (\<lambda>u. u),
           fetch_text = (\<lambda>u. if u = ''https://x/abi.json'' then Inr ''{}''
                             else Inl (Foreign ''TypeError: Failed to fetch'')),
           fetch_arrayBuffer = (\<lambda>u. Inl (Foreign ''TypeError: Failed to fetch'')),
           arrayBuffer = (\<lambda>f. Inr (file_bytes f)),
           readAsText = (\<lambda>f. if file_bytes f = [] then Inr None else Inr (Some ''{}'')),
           unzipSync = (\<lambda>b. if b = [] then Inl (Foreign ''invalid zip data'')
                            else Inr [(''b.abi.json'', [1]), (''a.json'', [1])]),
           today = ''2024-01-01'',
           convertAddress = (\<lambda>a. a),
           JSON_stringify = (\<lambda>v. ''[]'')\<rparr>"

definition s0 :: state where
  "s0 = \<lparr>address = Some ''0:ab'', codeHash = Some ''h1'',
          localStorage = [(''abi1'', ''{}'')], title = ''Everscale tools'',
          modalType = Some FROM_TEXT, abiNameInput = ''abi2'',
          fieldsInput = no_fields\<lparr>f_text := Some ''{}''\<rparr>,
          everscanAbi = None, error = None, storedAbi = [''abi1''],
          abiFilter = [], selectedAbi = None, abiSelectorVisible = False,
          inProgress = False, emitted = [],
          fetches = [\<lparr>codeHashChanged = False, aborted = False,
                      url = ''https://verify.everscan.io/info/code_hash/h1'',
                      run_address = ''0:ab''\<rparr>],
          cleanup = Some 0\<rparr>"

definition core0 :: "(nat, string) core" where
  "core0 = \<lparr>parseAbi = (\<lambda>t. if t = [] then Inl (Foreign ''empty input'') else Inr (length t)),
            handler_data = (\<lambda>h. replicate h CHR ''x''),
            JSON_parse = (\<lambda>t. if t = ''[ ]'' \<or> t = ''[]'' then Some (JArr []) else None),
            JSON_stringify4 = (\<lambda>v. ''[]'')\<rparr>"

definition w0 :: "(nat, string) SerializerWorkspaceState" where
  "w0 = \<lparr>abiInput = [], decodedAbi = Some (7, ''xxxxxxx''), ws_error = None, freed = []\<rparr>"






definition s_run :: state where
  "s_run = exec [(env0, FetchThen 0 (JObj [(''abi'', JArr [])]))]
             (init env0 [(''abi1'', ''{}'')] ''Everscale tools'' (Some ''h1'') (Some ''0:ab''))"

section \<open>Properties\<close>

subsection \<open>Storage and sorting\<close>

lemma getItem_setItem: "getItem (setItem k v ls) k' = (if k' = k then Some v else getItem ls k')"
  by (simp add: getItem_def setItem_def update_conv')






lemma onSubmit_unfold:
  "\<not> inProgress s \<Longrightarrow>
   onSubmit e s = onSubmit_resume e (loadAbiText e (fieldsInput s)) (onSubmit_begin s)"
  by (simp add: onSubmit_def onSubmit_begin_def)


lemma onSubmit_resume_ok:
  "checkAbi e text = None \<Longrightarrow>
   onSubmit_resume e (Inr text) s =
     s\<lparr>localStorage := setItem (abiNameInput s) text (localStorage s),
       storedAbi := getAllAbis e (setItem (abiNameInput s) text (localStorage s)),
       selectedAbi := Some (abiNameInput s),
       emitted := emitted s @ [Some text],
       modalType := None, fieldsInput := no_fields, error := None, inProgress := False\<rparr>"
  by (simp add: onSubmit_resume_def onSubmit_try_def closeModal_def emit_def Let_def)

lemma onSubmit_resume_load_failed:
  "onSubmit_resume e (Inl x) s = s\<lparr>error := Some (toString x), inProgress := False\<rparr>"
  by (simp add: onSubmit_resume_def onSubmit_try_def)

lemma onSubmit_resume_invalid:
  "checkAbi e text = Some x \<Longrightarrow>
   onSubmit_resume e (Inr text) s = s\<lparr>error := Some (toString x), inProgress := False\<rparr>"
  by (simp add: onSubmit_resume_def onSubmit_try_def)

lemma onSubmit_resume_cases:
  "(\<forall>t. r = Inr t \<and> checkAbi e t = None \<longrightarrow>
      localStorage (onSubmit_resume e r s) = setItem (abiNameInput s) t (localStorage s) \<and>
      getItem (localStorage (onSubmit_resume e r s)) (abiNameInput s) = Some t \<and>
      emitted (onSubmit_resume e r s) = emitted s @ [Some t]) \<and>
   (\<forall>x. r = Inl x \<or> (\<exists>t. r = Inr t \<and> checkAbi e t = Some x) \<longrightarrow>
      localStorage (onSubmit_resume e r s) = localStorage s \<and>
      storedAbi (onSubmit_resume e r s) = storedAbi s \<and>
      selectedAbi (onSubmit_resume e r s) = selectedAbi s \<and>
      emitted (onSubmit_resume e r s) = emitted s \<and>
      error (onSubmit_resume e r s) = Some (toString x))"
proof (intro conjI allI impI)
  fix t assume a: "r = Inr t \<and> checkAbi e t = None"
  then show "localStorage (onSubmit_resume e r s) = setItem (abiNameInput s) t (localStorage s)"
    by (simp add: onSubmit_resume_ok)
  from a show "getItem (localStorage (onSubmit_resume e r s)) (abiNameInput s) = Some t"
    by (simp add: onSubmit_resume_ok getItem_setItem)
  from a show "emitted (onSubmit_resume e r s) = emitted s @ [Some t]"
    by (simp add: onSubmit_resume_ok)
next
  fix x assume a: "r = Inl x \<or> (\<exists>t. r = Inr t \<and> checkAbi e t = Some x)"
  then have eq: "onSubmit_resume e r s = s\<lparr>error := Some (toString x), inProgress := False\<rparr>"
    by (auto simp: onSubmit_resume_load_failed onSubmit_resume_invalid)
  show "localStorage (onSubmit_resume e r s) = localStorage s" by (simp add: eq)
  show "storedAbi (onSubmit_resume e r s) = storedAbi s" by (simp add: eq)
  show "selectedAbi (onSubmit_resume e r s) = selectedAbi s" by (simp add: eq)
  show "emitted (onSubmit_resume e r s) = emitted s" by (simp add: eq)
  show "error (onSubmit_resume e r s) = Some (toString x)" by (simp add: eq)
qed

subsection \<open>Submitting a single ABI\<close>

text \<open>
  Claim C1. When the load of \<open>onSubmit\<close> yields a text that \<open>checkAbi\<close>
  accepts, the text is written to the storage under \<open>abiNameInput\<close> and
  emitted. When the load throws, or \<open>checkAbi\<close> throws on the text, the
  storage, \<open>storedAbi\<close>, \<open>selectedAbi\<close> and the emitted events are as before
  and \<open>error\<close> is the string of the exception. There is no third case, so a
  write or a \<open>change\<close> event happens only after \<open>checkAbi\<close> has returned.
  The same holds of the part after the \<^verbatim>\<open>await\<close> alone, on whatever state
  \<open>s'\<close> it resumes with whatever outcome \<open>r\<close> of the load.
\<close>

theorem onSubmit_validates_first:
  "(\<forall>t. \<not> inProgress s \<and> loadAbiText e (fieldsInput s) = Inr t \<and> checkAbi e t = None \<longrightarrow>
      localStorage (onSubmit e s) = setItem (abiNameInput s) t (localStorage s) \<and>
      getItem (localStorage (onSubmit e s)) (abiNameInput s) = Some t \<and>
      emitted (onSubmit e s) = emitted s @ [Some t]) \<and>
   (\<forall>x. \<not> inProgress s \<and>
        (loadAbiText e (fieldsInput s) = Inl x \<or>
         (\<exists>t. loadAbiText e (fieldsInput s) = Inr t \<and> checkAbi e t = Some x)) \<longrightarrow>
      localStorage (onSubmit e s) = localStorage s \<and>
      storedAbi (onSubmit e s) = storedAbi s \<and>
      selectedAbi (onSubmit e s) = selectedAbi s \<and>
      emitted (onSubmit e s) = emitted s \<and>
      error (onSubmit e s) = Some (toString x)) \<and>
   (\<not> inProgress s \<longrightarrow>
      onSubmit e s = onSubmit_resume e (loadAbiText e (fieldsInput s)) (s\<lparr>inProgress := True\<rparr>)) \<and>
   (\<forall>t. r = Inr t \<and> checkAbi e t = None \<longrightarrow>
      localStorage (onSubmit_resume e r s') = setItem (abiNameInput s') t (localStorage s') \<and>
      getItem (localStorage (onSubmit_resume e r s')) (abiNameInput s') = Some t \<and>
      emitted (onSubmit_resume e r s') = emitted s' @ [Some t]) \<and>
   (\<forall>x. r = Inl x \<or> (\<exists>t. r = Inr t \<and> checkAbi e t = Some x) \<longrightarrow>
      localStorage (onSubmit_resume e r s') = localStorage s' \<and>
      storedAbi (onSubmit_resume e r s') = storedAbi s' \<and>
      selectedAbi (onSubmit_resume e r s') = selectedAbi s' \<and>
      emitted (onSubmit_resume e r s') = emitted s' \<and>
      error (onSubmit_resume e r s') = Some (toString x))"
proof -
  let ?b = "s\<lparr>inProgress := True\<rparr>"
  let ?l = "loadAbiText e (fieldsInput s)"
  have u: "\<not> inProgress s \<longrightarrow> onSubmit e s = onSubmit_resume e ?l ?b"
    by (simp add: onSubmit_unfold onSubmit_begin_def)
  note R = onSubmit_resume_cases[of ?l e ?b]
  have ok: "\<forall>t. \<not> inProgress s \<and> ?l = Inr t \<and> checkAbi e t = None \<longrightarrow>
      localStorage (onSubmit e s) = setItem (abiNameInput s) t (localStorage s) \<and>
      getItem (localStorage (onSubmit e s)) (abiNameInput s) = Some t \<and>
      emitted (onSubmit e s) = emitted s @ [Some t]"
  proof (intro allI impI)
    fix t assume a: "\<not> inProgress s \<and> ?l = Inr t \<and> checkAbi e t = None"
    with u have "onSubmit e s = onSubmit_resume e ?l ?b" by blast
    moreover from R a have
      "localStorage (onSubmit_resume e ?l ?b) = setItem (abiNameInput ?b) t (localStorage ?b) \<and>
       getItem (localStorage (onSubmit_resume e ?l ?b)) (abiNameInput ?b) = Some t \<and>
       emitted (onSubmit_resume e ?l ?b) = emitted ?b @ [Some t]" by blast
    ultimately show "localStorage (onSubmit e s) = setItem (abiNameInput s) t (localStorage s) \<and>
      getItem (localStorage (onSubmit e s)) (abiNameInput s) = Some t \<and>
      emitted (onSubmit e s) = emitted s @ [Some t]" by (simp add: getItem_setItem)
  qed
  have err: "\<forall>x. \<not> inProgress s \<and> (?l = Inl x \<or> (\<exists>t. ?l = Inr t \<and> checkAbi e t = Some x)) \<longrightarrow>
      localStorage (onSubmit e s) = localStorage s \<and>
      storedAbi (onSubmit e s) = storedAbi s \<and>
      selectedAbi (onSubmit e s) = selectedAbi s \<and>
      emitted (onSubmit e s) = emitted s \<and>
      error (onSubmit e s) = Some (toString x)"
  proof (intro allI impI)
    fix x assume a: "\<not> inProgress s \<and> (?l = Inl x \<or> (\<exists>t. ?l = Inr t \<and> checkAbi e t = Some x))"
    with u have "onSubmit e s = onSubmit_resume e ?l ?b" by blast
    moreover from R a have
      "localStorage (onSubmit_resume e ?l ?b) = localStorage ?b \<and>
       storedAbi (onSubmit_resume e ?l ?b) = storedAbi ?b \<and>
       selectedAbi (onSubmit_resume e ?l ?b) = selectedAbi ?b \<and>
       emitted (onSubmit_resume e ?l ?b) = emitted ?b \<and>
       error (onSubmit_resume e ?l ?b) = Some (toString x)" by blast
    ultimately show "localStorage (onSubmit e s) = localStorage s \<and>
      storedAbi (onSubmit e s) = storedAbi s \<and>
      selectedAbi (onSubmit e s) = selectedAbi s \<and>
      emitted (onSubmit e s) = emitted s \<and>
      error (onSubmit e s) = Some (toString x)" by simp
  qed
  from ok err u onSubmit_resume_cases[of r e s'] show ?thesis by blast
qed

theorem onSubmit_validates_first_witness:
  "\<not> inProgress s0 \<and> loadAbiText env0 (fieldsInput s0) = Inr ''{}'' \<and> checkAbi env0 ''{}'' = None \<and>
   getItem (localStorage (onSubmit env0 s0)) ''abi2'' = Some ''{}'' \<and>
   emitted (onSubmit env0 s0) = [Some ''{}''] \<and>
   \<not> inProgress (onChangeText ''x'' s0) \<and>
   loadAbiText env0 (fieldsInput (onChangeText ''x'' s0)) = Inr ''x'' \<and>
   checkAbi env0 ''x'' = Some (Foreign ''invalid abi'') \<and>
   localStorage (onSubmit env0 (onChangeText ''x'' s0)) = [(''abi1'', ''{}'')] \<and>
   emitted (onSubmit env0 (onChangeText ''x'' s0)) = [] \<and>
   error (onSubmit env0 (onChangeText ''x'' s0)) = Some ''invalid abi'' \<and>
   error (onSubmit_resume env0 (Inl (Foreign ''TypeError: Failed to fetch'')) s0) =
     Some ''TypeError: Failed to fetch''"
proof -
  let ?s1 = "onChangeText ''x'' s0"
  have h1: "\<not> inProgress s0" "\<not> inProgress ?s1" by (simp_all add: s0_def onChangeText_def)
  have h2: "loadAbiText env0 (fieldsInput s0) = Inr ''{}''"
    "loadAbiText env0 (fieldsInput ?s1) = Inr ''x''"
    by (simp_all add: s0_def loadAbiText_def no_fields_def onChangeText_def)
  have h3: "checkAbi env0 ''{}'' = None" "checkAbi env0 ''x'' = Some (Foreign ''invalid abi'')"
    by (simp_all add: env0_def)
  have n: "abiNameInput s0 = ''abi2''" "emitted s0 = []"
    "localStorage ?s1 = [(''abi1'', ''{}'')]" "emitted ?s1 = []"
    by (simp_all add: s0_def onChangeText_def)
  from onSubmit_validates_first[of s0 env0] h1 h2 h3
  have "getItem (localStorage (onSubmit env0 s0)) (abiNameInput s0) = Some ''{}'' \<and>
    emitted (onSubmit env0 s0) = emitted s0 @ [Some ''{}'']" by blast
  then have a: "getItem (localStorage (onSubmit env0 s0)) ''abi2'' = Some ''{}'' \<and>
    emitted (onSubmit env0 s0) = [Some ''{}'']" by (simp add: n)
  from onSubmit_validates_first[of ?s1 env0] h1 h2 h3
  have "localStorage (onSubmit env0 ?s1) = localStorage ?s1 \<and>
    emitted (onSubmit env0 ?s1) = emitted ?s1 \<and>
    error (onSubmit env0 ?s1) = Some (toString (Foreign ''invalid abi''))" by blast
  then have b: "localStorage (onSubmit env0 ?s1) = [(''abi1'', ''{}'')] \<and>
    emitted (onSubmit env0 ?s1) = [] \<and> error (onSubmit env0 ?s1) = Some ''invalid abi''"
    by (simp add: n)
  from onSubmit_validates_first[of s0 env0 "Inl (Foreign ''TypeError: Failed to fetch'')" s0]
  have "error (onSubmit_resume env0 (Inl (Foreign ''TypeError: Failed to fetch'')) s0) =
     Some (toString (Foreign ''TypeError: Failed to fetch''))" by blast
  then have c: "error (onSubmit_resume env0 (Inl (Foreign ''TypeError: Failed to fetch'')) s0) =
     Some ''TypeError: Failed to fetch''" by simp
  from h1 h2 h3 a b c show ?thesis by blast
qed

text \<open>
  Claim C8. With \<open>inProgress\<close> set, \<open>onSubmit\<close> and \<open>onSubmitZip\<close> return the
  state they got. Otherwise they set \<open>inProgress\<close> before the load
  (\<open>onSubmit_begin\<close>), continue from that state, and whatever the load
  returned or threw, \<open>inProgress\<close> is false when they end.
\<close>

theorem inProgress_guard:
  "(inProgress s \<longrightarrow> onSubmit e s = s \<and> onSubmitZip e s = s) \<and>
   (\<not> inProgress s \<longrightarrow>
      inProgress (onSubmit_begin s) \<and>
      onSubmit e s = onSubmit_resume e (loadAbiText e (fieldsInput s)) (onSubmit_begin s) \<and>
      onSubmitZip e s = onSubmitZip_resume e (loadZipContent e (fieldsInput s)) (onSubmit_begin s) \<and>
      \<not> inProgress (onSubmit e s) \<and> \<not> inProgress (onSubmitZip e s)) \<and>
   \<not> inProgress (onSubmit_resume e r s') \<and>
   \<not> inProgress (onSubmitZip_resume e rz s')"
  by (simp add: onSubmit_def onSubmitZip_def onSubmit_begin_def onSubmit_resume_def
      onSubmitZip_resume_def)

theorem inProgress_guard_witness:
  "inProgress (s0\<lparr>inProgress := True\<rparr>) \<and>
   onSubmit env0 (s0\<lparr>inProgress := True\<rparr>) = s0\<lparr>inProgress := True\<rparr> \<and>
   onSubmitZip env0 (s0\<lparr>inProgress := True\<rparr>) = s0\<lparr>inProgress := True\<rparr> \<and>
   \<not> inProgress s0 \<and> inProgress (onSubmit_begin s0) \<and>
   \<not> inProgress (onSubmit env0 s0) \<and> \<not> inProgress (onSubmitZip env0 s0)"
proof -
  have h1: "\<not> inProgress s0" by (simp add: s0_def)
  have h2: "inProgress (s0\<lparr>inProgress := True\<rparr>)" by simp
  from inProgress_guard[of "s0\<lparr>inProgress := True\<rparr>" env0] h2
  have a: "onSubmit env0 (s0\<lparr>inProgress := True\<rparr>) = s0\<lparr>inProgress := True\<rparr> \<and>
   onSubmitZip env0 (s0\<lparr>inProgress := True\<rparr>) = s0\<lparr>inProgress := True\<rparr>" by blast
  from inProgress_guard[of s0 env0] h1
  have b: "inProgress (onSubmit_begin s0) \<and>
   \<not> inProgress (onSubmit env0 s0) \<and> \<not> inProgress (onSubmitZip env0 s0)" by blast
  from h1 h2 a b show ?thesis by blast
qed

subsection \<open>Selecting a stored ABI\<close>

text \<open>
  Claim C9. \<open>onSelectAbi\<close> always emits what \<open>getItem\<close> returns for the name.
  For a stored key the selection becomes the name and the stored text is
  emitted; for a key that is not stored the selection is cleared and the
  payload of the event is \<^verbatim>\<open>null\<close> (\<open>None\<close>), although the event is declared
  with a string.
\<close>

theorem onSelectAbi_emits:
  "emitted (onSelectAbi nm s) = emitted s @ [getItem (localStorage s) nm] \<and>
   abiSelectorVisible (onSelectAbi nm s) = False \<and>
   (\<forall>t. getItem (localStorage s) nm = Some t \<longrightarrow>
        selectedAbi (onSelectAbi nm s) = Some nm \<and>
        emitted (onSelectAbi nm s) = emitted s @ [Some t]) \<and>
   (getItem (localStorage s) nm = None \<longrightarrow>
        selectedAbi (onSelectAbi nm s) = None \<and>
        emitted (onSelectAbi nm s) = emitted s @ [None])"
  by (simp add: onSelectAbi_def emit_def Let_def)

theorem onSelectAbi_emits_witness:
  "getItem (localStorage s0) ''abi1'' = Some ''{}'' \<and>
   selectedAbi (onSelectAbi ''abi1'' s0) = Some ''abi1'' \<and>
   emitted (onSelectAbi ''abi1'' s0) = [Some ''{}''] \<and>
   getItem (localStorage s0) ''abi9'' = None \<and>
   selectedAbi (onSelectAbi ''abi9'' s0) = None \<and>
   emitted (onSelectAbi ''abi9'' s0) = [None]"
proof -
  have h1: "getItem (localStorage s0) ''abi1'' = Some ''{}''" by (simp add: s0_def getItem_def)
  have h2: "getItem (localStorage s0) ''abi9'' = None" by (simp add: s0_def getItem_def)
  have n: "emitted s0 = []" by (simp add: s0_def)
  from onSelectAbi_emits[of "''abi1''" s0] h1 n
  have a: "selectedAbi (onSelectAbi ''abi1'' s0) = Some ''abi1'' \<and>
   emitted (onSelectAbi ''abi1'' s0) = [Some ''{}'']" by simp
  from onSelectAbi_emits[of "''abi9''" s0] h2 n
  have b: "selectedAbi (onSelectAbi ''abi9'' s0) = None \<and>
   emitted (onSelectAbi ''abi9'' s0) = [None]" by simp
  from h1 h2 a b show ?thesis by blast
qed

subsection \<open>Loading the text of an ABI\<close>

text \<open>
  Claim C6. \<open>loadAbiText\<close> returns the pasted text when there is one; else,
  with a link, what fetching the rewritten URL yields (and the exception of
  \<^verbatim>\<open>new URL\<close> for a link that is no URL); else, with a file, the text read
  from it, the empty string when the read has no result (and the error of the
  reader when it fails); with none of the three it throws
  \<^verbatim>\<open>Error('No ABI input specified')\<close>.
\<close>

theorem loadAbiText_cases:
  "(\<forall>t. f_text fi = Some t \<longrightarrow> loadAbiText e fi = Inr t) \<and>
   (\<forall>l u. f_text fi = None \<and> f_link fi = Some l \<and> newURL e l = Inr u \<longrightarrow>
      loadAbiText e fi = fetch_text e (rewriteAbiUrl e u)) \<and>
   (\<forall>l x. f_text fi = None \<and> f_link fi = Some l \<and> newURL e l = Inl x \<longrightarrow>
      loadAbiText e fi = Inl x) \<and>
   (\<forall>f c. f_text fi = None \<and> f_link fi = None \<and> f_file fi = Some f \<and>
      readAsText e f = Inr (Some c) \<longrightarrow> loadAbiText e fi = Inr c) \<and>
   (\<forall>f. f_text fi = None \<and> f_link fi = None \<and> f_file fi = Some f \<and>
      readAsText e f = Inr None \<longrightarrow> loadAbiText e fi = Inr []) \<and>
   (\<forall>f x. f_text fi = None \<and> f_link fi = None \<and> f_file fi = Some f \<and>
      readAsText e f = Inl x \<longrightarrow> loadAbiText e fi = Inl x) \<and>
   (f_text fi = None \<and> f_link fi = None \<and> f_file fi = None \<longrightarrow>
      loadAbiText e fi = Inl (Error ''No ABI input specified''))"
  by (simp add: loadAbiText_def)

theorem loadAbiText_cases_witness:
  "loadAbiText env0 (no_fields\<lparr>f_text := Some ''abc''\<rparr>) = Inr ''abc'' \<and>
   newURL env0 ''https://x/abi.json'' = Inr ''https://x/abi.json'' \<and>
   loadAbiText env0 (no_fields\<lparr>f_link := Some ''https://x/abi.json''\<rparr>) = Inr ''{}'' \<and>
   readAsText env0 (File ''a.json'' [1]) = Inr (Some ''{}'') \<and>
   loadAbiText env0 (no_fields\<lparr>f_file := Some (File ''a.json'' [1])\<rparr>) = Inr ''{}'' \<and>
   readAsText env0 (File ''a.json'' []) = Inr None \<and>
   loadAbiText env0 (no_fields\<lparr>f_file := Some (File ''a.json'' [])\<rparr>) = Inr [] \<and>
   loadAbiText env0 no_fields = Inl (Error ''No ABI input specified'')"
proof -
  have u: "newURL env0 ''https://x/abi.json'' = Inr ''https://x/abi.json''"
    and fe: "fetch_text env0 (rewriteAbiUrl env0 ''https://x/abi.json'') = Inr ''{}''"
    and r1: "readAsText env0 (File ''a.json'' [1]) = Inr (Some ''{}'')"
    and r2: "readAsText env0 (File ''a.json'' []) = Inr None"
    by (simp_all add: env0_def)
  from loadAbiText_cases[of "no_fields\<lparr>f_text := Some ''abc''\<rparr>" env0]
  have a: "loadAbiText env0 (no_fields\<lparr>f_text := Some ''abc''\<rparr>) = Inr ''abc''" by simp
  from loadAbiText_cases[of "no_fields\<lparr>f_link := Some ''https://x/abi.json''\<rparr>" env0] u fe
  have b: "loadAbiText env0 (no_fields\<lparr>f_link := Some ''https://x/abi.json''\<rparr>) = Inr ''{}''"
    by (simp add: no_fields_def)
  from loadAbiText_cases[of "no_fields\<lparr>f_file := Some (File ''a.json'' [1])\<rparr>" env0] r1
  have c: "loadAbiText env0 (no_fields\<lparr>f_file := Some (File ''a.json'' [1])\<rparr>) = Inr ''{}''"
    by (simp add: no_fields_def)
  from loadAbiText_cases[of "no_fields\<lparr>f_file := Some (File ''a.json'' [])\<rparr>" env0] r2
  have d: "loadAbiText env0 (no_fields\<lparr>f_file := Some (File ''a.json'' [])\<rparr>) = Inr []"
    by (simp add: no_fields_def)
  from loadAbiText_cases[of no_fields env0]
  have f: "loadAbiText env0 no_fields = Inl (Error ''No ABI input specified'')"
    by (simp add: no_fields_def)
  from u r1 r2 a b c d f show ?thesis by blast
qed

subsection \<open>The workspace\<close>

lemma clear_held:
  "clear (Some f) w =
     f (w\<lparr>decodedAbi := None, ws_error := None,
          freed := freed w @ (case decodedAbi w of None \<Rightarrow> [] | Some d \<Rightarrow> [fst d])\<rparr>)"
  by (cases "decodedAbi w") (simp_all add: clear_def Let_def)

text \<open>
  Claim C5. \<open>handleAbi\<close> decodes the raw input with \<open>parseAbi\<close> and nothing
  else. The handler held before the call, if there is one, is freed on both
  paths. When \<open>parseAbi\<close> returns a handler, \<open>decodedAbi\<close> holds it with its
  data and there is no error; when it throws, \<open>decodedAbi\<close> is \<^verbatim>\<open>null\<close> and
  \<open>error\<close> is the string of the exception.
\<close>

theorem handleAbi_decodes:
  "abiInput (handleAbi c inp w) = prettyPrint c inp \<and>
   freed (handleAbi c inp w) =
     freed w @ (case decodedAbi w of None \<Rightarrow> [] | Some d \<Rightarrow> [fst d]) \<and>
   (\<forall>h. parseAbi c inp = Inr h \<longrightarrow>
        decodedAbi (handleAbi c inp w) = Some (h, handler_data c h) \<and>
        ws_error (handleAbi c inp w) = None) \<and>
   (\<forall>x. parseAbi c inp = Inl x \<longrightarrow>
        decodedAbi (handleAbi c inp w) = None \<and>
        ws_error (handleAbi c inp w) = Some (toString x))"
  by (cases "parseAbi c inp")
     (simp_all add: handleAbi_def setNewAbi_def clear_held prepareHandler_def Let_def)

theorem handleAbi_decodes_witness:
  "parseAbi core0 ''[ ]'' = Inr 3 \<and>
   decodedAbi (handleAbi core0 ''[ ]'' w0) = Some (3, ''xxx'') \<and>
   freed (handleAbi core0 ''[ ]'' w0) = [7] \<and>
   abiInput (handleAbi core0 ''[ ]'' w0) = ''[]'' \<and>
   parseAbi core0 [] = Inl (Foreign ''empty input'') \<and>
   decodedAbi (handleAbi core0 [] w0) = None \<and>
   freed (handleAbi core0 [] w0) = [7] \<and>
   ws_error (handleAbi core0 [] w0) = Some ''empty input''"
proof -
  have p1: "parseAbi core0 ''[ ]'' = Inr 3" by (simp add: core0_def)
  have p2: "parseAbi core0 [] = Inl (Foreign ''empty input'')" by (simp add: core0_def)
  have d: "handler_data core0 3 = ''xxx''" by (simp add: core0_def numeral_3_eq_3)
  have q: "prettyPrint core0 ''[ ]'' = ''[]''" by (simp add: prettyPrint_def core0_def)
  have w: "decodedAbi w0 = Some (7, ''xxxxxxx'')" "freed w0 = []" by (simp_all add: w0_def)
  from handleAbi_decodes[of core0 "''[ ]''" w0] p1 d q w
  have a: "decodedAbi (handleAbi core0 ''[ ]'' w0) = Some (3, ''xxx'') \<and>
   freed (handleAbi core0 ''[ ]'' w0) = [7] \<and>
   abiInput (handleAbi core0 ''[ ]'' w0) = ''[]''" by simp
  from handleAbi_decodes[of core0 "[]" w0] p2 w
  have b: "decodedAbi (handleAbi core0 [] w0) = None \<and>
   freed (handleAbi core0 [] w0) = [7] \<and>
   ws_error (handleAbi core0 [] w0) = Some ''empty input''" by simp
  from p1 p2 a b show ?thesis by blast
qed

text \<open>
  \<open>prettyPrint\<close> itself only chooses between the serialization of the parsed
  input and the input. What it returns on its own output is decided by
  \<^verbatim>\<open>JSON.parse\<close> and \<^verbatim>\<open>JSON.stringify\<close>, which are parameters here: their
  round trip includes the parsing and the shortest formatting of IEEE-754
  doubles, and is not modelled.
\<close>

lemma prettyPrint_parsed: "JSON_parse c s = Some v \<Longrightarrow> prettyPrint c s = JSON_stringify4 c v"
  by (simp add: prettyPrint_def)

lemma prettyPrint_unparsed: "JSON_parse c s = None \<Longrightarrow> prettyPrint c s = s"
  by (simp add: prettyPrint_def)

subsection \<open>Processing an archive\<close>













subsection \<open>The list of stored ABIs\<close>








subsection \<open>The registry watcher\<close>

lemma then_title_fields:
  "fetches (then_title e a d s) = fetches s" "cleanup (then_title e a d s) = cleanup s"
  "everscanAbi (then_title e a d s) = everscanAbi s"
  "localStorage (then_title e a d s) = localStorage s"
  "storedAbi (then_title e a d s) = storedAbi s"
  by (simp_all add: then_title_def Let_def split: option.splits json.splits)

lemma then_abi_fields:
  "fetches (then_abi e d s) = fetches s" "cleanup (then_abi e d s) = cleanup s"
  "localStorage (then_abi e d s) = localStorage s"
  "storedAbi (then_abi e d s) = storedAbi s"
  by (simp_all add: then_abi_def split: option.splits)

lemma fetch_then_fields:
  "fetches (fetch_then e i d s) = fetches s" "cleanup (fetch_then e i d s) = cleanup s"
  "localStorage (fetch_then e i d s) = localStorage s"
  "storedAbi (fetch_then e i d s) = storedAbi s"
  by (simp_all add: fetch_then_def then_title_fields then_abi_fields)

lemma fetch_then_stale: "stale i s \<Longrightarrow> fetch_then e i d s = s"
  by (simp add: fetch_then_def stale_def)

lemma fetch_then_guard:
  "i < length (fetches s) \<Longrightarrow> codeHashChanged (fetches s ! i) \<Longrightarrow> fetch_then e i d s = s"
  by (simp add: fetch_then_def)

lemma fetch_then_no_run: "\<not> i < length (fetches s) \<Longrightarrow> fetch_then e i d s = s"
  by (simp add: fetch_then_def)

lemma watch_title_fields:
  "fetches (watch_title e s) = fetches s" "cleanup (watch_title e s) = cleanup s"
  "everscanAbi (watch_title e s) = everscanAbi s"
  by (simp_all add: watch_title_def split: option.splits)

lemma onSubmit_resume_fields:
  "fetches (onSubmit_resume e r s) = fetches s" "cleanup (onSubmit_resume e r s) = cleanup s"
  "everscanAbi (onSubmit_resume e r s) = everscanAbi s"
  by (simp_all add: onSubmit_resume_def onSubmit_try_def closeModal_def emit_def Let_def
      split: sum.splits option.splits)

lemma onSubmitZip_resume_fields:
  "fetches (onSubmitZip_resume e r s) = fetches s" "cleanup (onSubmitZip_resume e r s) = cleanup s"
  "everscanAbi (onSubmitZip_resume e r s) = everscanAbi s"
  by (simp_all add: onSubmitZip_resume_def onSubmitZip_try_def closeModal_def emit_def
      split: sum.splits prod.splits)

lemma onSubmit_fields:
  "fetches (onSubmit e s) = fetches s" "cleanup (onSubmit e s) = cleanup s"
  "everscanAbi (onSubmit e s) = everscanAbi s"
  by (simp_all add: onSubmit_def onSubmit_resume_fields onSubmit_begin_def)

lemma onSubmitZip_fields:
  "fetches (onSubmitZip e s) = fetches s" "cleanup (onSubmitZip e s) = cleanup s"
  "everscanAbi (onSubmitZip e s) = everscanAbi s"
  by (simp_all add: onSubmitZip_def onSubmitZip_resume_fields onSubmit_begin_def)

lemma handle_fields:
  assumes "\<And>ch ad. ev \<noteq> SetProps ch ad" "\<And>i d. ev \<noteq> FetchThen i d"
  shows "fetches (handle e ev s) = fetches s" "cleanup (handle e ev s) = cleanup s"
    "everscanAbi (handle e ev s) = everscanAbi s"
  using assms
  by (cases ev; simp add: onSelectAbi_def onDeleteAbi_def closeModal_def emit_def Let_def
      onChangeFile_def onChangeZipFile_def onChangeText_def onChangeLink_def onChangeZipLink_def
      onToggleAbiSelector_def onHideAbiSelector_def onSubmitEverscanAbi_def onSubmit_fields
      onSubmitZip_fields onSubmit_resume_fields onSubmitZip_resume_fields onSubmit_begin_def
      split: option.splits)+

lemma live_inv_cong:
  "fetches s' = fetches s \<Longrightarrow> cleanup s' = cleanup s \<Longrightarrow> everscanAbi s' = everscanAbi s \<Longrightarrow>
   live_inv s' = live_inv s"
  by (simp add: live_inv_def stale_def split: option.splits)

lemma stale_cong: "fetches s' = fetches s \<Longrightarrow> stale i s' = stale i s"
  by (simp add: stale_def)

lemma run_cleanup_length: "length (fetches (run_cleanup s)) = length (fetches s)"
  by (simp add: run_cleanup_def split: option.splits)

lemma run_cleanup_cleanup: "cleanup (run_cleanup s) = None"
  by (simp add: run_cleanup_def split: option.splits)

lemma run_cleanup_abi: "live_inv s \<Longrightarrow> everscanAbi (run_cleanup s) = None"
  by (simp add: run_cleanup_def live_inv_def split: option.splits)

lemma run_cleanup_stale:
  assumes "live_inv s" "i < length (fetches s)"
  shows "stale i (run_cleanup s)"
proof (cases "cleanup s")
  case None
  with assms show ?thesis by (simp add: run_cleanup_def live_inv_def stale_def)
next
  case (Some j)
  with assms have j: "j < length (fetches s)" by (simp add: live_inv_def)
  show ?thesis
  proof (cases "i = j")
    case True
    with Some j show ?thesis by (simp add: run_cleanup_def stale_def)
  next
    case False
    with assms Some have "stale i s" by (simp add: live_inv_def)
    with Some j False show ?thesis by (simp add: run_cleanup_def stale_def)
  qed
qed

lemma run_cleanup_keeps_stale: "stale i s \<Longrightarrow> stale i (run_cleanup s)"
  by (cases "cleanup s")
     (auto simp: run_cleanup_def stale_def nth_list_update)

lemma watch_callback_keeps_stale: "stale i s \<Longrightarrow> stale i (watch_callback ch ad s)"
  by (simp add: watch_callback_def stale_def nth_append split: option.splits)

lemma watch_callback_abi: "everscanAbi (watch_callback ch ad s) = everscanAbi s"
  by (simp add: watch_callback_def split: option.splits)

lemma live_inv_watch_codeHash:
  assumes "live_inv s"
  shows "live_inv (watch_codeHash ch ad s)"
proof -
  let ?c = "run_cleanup s"
  have st: "\<forall>i<length (fetches ?c). stale i ?c"
    using assms run_cleanup_stale by (simp add: run_cleanup_length)
  have c: "cleanup ?c = None" by (rule run_cleanup_cleanup)
  have a: "everscanAbi ?c = None" using assms by (rule run_cleanup_abi)
  show ?thesis
  proof (cases "ad = None \<or> ch = None")
    case True
    then have "watch_callback ch ad ?c = ?c" by (auto simp: watch_callback_def split: option.splits)
    with st c a show ?thesis by (simp add: watch_codeHash_def live_inv_def)
  next
    case False
    then obtain a' c' where ac: "ad = Some a'" "ch = Some c'" by auto
    from st have "\<forall>i<length (fetches ?c). stale i (watch_callback ch ad ?c)"
      using watch_callback_keeps_stale by blast
    with ac show ?thesis
      by (simp add: watch_codeHash_def live_inv_def watch_callback_def less_Suc_eq)
  qed
qed

lemma live_inv_fetch_then:
  assumes "live_inv s"
  shows "live_inv (fetch_then e i d s)"
proof (cases "i < length (fetches s) \<and> \<not> codeHashChanged (fetches s ! i)")
  case True
  with assms have "cleanup s = Some i" by (auto simp: live_inv_def stale_def)
  with assms show ?thesis
    by (simp add: live_inv_def stale_def fetch_then_fields)
next
  case False
  then have "fetch_then e i d s = s" by (auto simp: fetch_then_def)
  with assms show ?thesis by simp
qed

lemma live_inv_props_update: "live_inv (s\<lparr>codeHash := ch, address := ad\<rparr>) = live_inv s"
  by (simp add: live_inv_def stale_def split: option.splits)

lemma live_inv_handle:
  assumes "live_inv s"
  shows "live_inv (handle e ev s)"
proof (cases ev)
  case (SetProps ch ad)
  with assms show ?thesis
    by (simp add: setProps_def live_inv_watch_codeHash live_inv_props_update)
next
  case (FetchThen i d)
  with assms show ?thesis by (simp add: live_inv_fetch_then)
qed (use assms in \<open>simp_all only: live_inv_cong[OF handle_fields] event.distinct not_False_eq_True\<close>)

lemma live_inv_step: "live_inv s \<Longrightarrow> live_inv (step ev s)"
  by (simp add: step_def Let_def live_inv_handle live_inv_cong[OF watch_title_fields])

lemma live_inv_exec: "live_inv s \<Longrightarrow> live_inv (exec evs s)"
  by (induction evs arbitrary: s) (simp_all add: exec_def live_inv_step)

lemma live_inv_init: "live_inv (init e ls t ch ad)"
proof -
  have "live_inv \<lparr>address = ad, codeHash = ch, localStorage = ls, title = t,
           modalType = None, abiNameInput = DEFAULT_ABI_NAME, fieldsInput = no_fields,
           everscanAbi = None, error = None, storedAbi = getAllAbis e ls,
           abiFilter = [], selectedAbi = None, abiSelectorVisible = False,
           inProgress = False, emitted = [], fetches = [], cleanup = None\<rparr>"
    by (simp add: live_inv_def)
  then show ?thesis
    by (simp add: init_def live_inv_watch_codeHash live_inv_cong[OF watch_title_fields])
qed

lemma stale_handle: "stale i s \<Longrightarrow> stale i (handle e ev s)"
proof (cases ev)
  case (SetProps ch ad)
  assume "stale i s"
  then have "stale i (s\<lparr>codeHash := ch, address := ad\<rparr>)" by (simp add: stale_def)
  with \<open>stale i s\<close> SetProps show ?thesis
    by (simp add: setProps_def watch_codeHash_def watch_callback_keeps_stale run_cleanup_keeps_stale)
next
  case (FetchThen j d)
  assume "stale i s"
  with FetchThen show ?thesis by (simp add: stale_cong[OF fetch_then_fields(1)])
qed (simp_all only: stale_cong[OF handle_fields(1)] event.distinct not_False_eq_True)

lemma stale_step: "stale i s \<Longrightarrow> stale i (step ev s)"
  by (simp add: step_def Let_def stale_handle stale_cong[OF watch_title_fields(1)])

lemma stale_exec: "stale i s \<Longrightarrow> stale i (exec evs s)"
  by (induction evs arbitrary: s) (simp_all add: exec_def stale_step)

lemma setProps_changed:
  "ch \<noteq> codeHash s \<or> ad \<noteq> address s \<Longrightarrow>
   setProps ch ad s = watch_callback ch ad (run_cleanup (s\<lparr>codeHash := ch, address := ad\<rparr>))"
  by (auto simp: setProps_def watch_codeHash_def)

lemma s_run_eq:
  "s_run = \<lparr>address = Some ''0:ab'', codeHash = Some ''h1'',
    localStorage = [(''abi1'', ''{}'')], title = ''Everscale tools'',
    modalType = None, abiNameInput = ''abi1'', fieldsInput = no_fields,
    everscanAbi = Some ''[]'', error = None, storedAbi = [''abi1''],
    abiFilter = [], selectedAbi = None, abiSelectorVisible = False,
    inProgress = False, emitted = [],
    fetches = [\<lparr>codeHashChanged = False, aborted = False,
                url = ''https://verify.everscan.io/info/code_hash/h1'',
                run_address = ''0:ab''\<rparr>],
    cleanup = Some 0\<rparr>"
  by (simp add: s_run_def exec_def step_def init_def watch_title_def watch_codeHash_def
      run_cleanup_def watch_callback_def fetch_then_def then_abi_def then_title_def
      getAllAbis_def keys_def prototype_properties_def sort_cmp_def DEFAULT_ABI_NAME_def
      env0_def Let_def)

text \<open>
  Claim C4. In every state a mounted form can reach, a change of
  \<open>codeHash\<close> or \<open>address\<close> runs the registered cleanup before the callback:
  after the cleanup \<open>everscanAbi\<close> is \<^verbatim>\<open>undefined\<close> and every run made so far
  is aborted and marked; only then does the callback start a new run, and it
  starts none when a prop is \<^verbatim>\<open>null\<close>. From then on, whatever happens to the
  form, the continuation of an earlier run returns the state it finds, and
  so does, in any state, the continuation of a run marked
  \<open>codeHashChanged\<close>.
\<close>

theorem props_change_supersedes:
  assumes reach: "s = exec evs (init e0 ls t ch0 ad0)"
    and changed: "ch \<noteq> codeHash s \<or> ad \<noteq> address s"
  shows "setProps ch ad s = watch_callback ch ad (run_cleanup (s\<lparr>codeHash := ch, address := ad\<rparr>)) \<and>
    everscanAbi (run_cleanup (s\<lparr>codeHash := ch, address := ad\<rparr>)) = None \<and>
    (\<forall>i<length (fetches s).
        aborted (fetches (run_cleanup (s\<lparr>codeHash := ch, address := ad\<rparr>)) ! i) \<and>
        codeHashChanged (fetches (run_cleanup (s\<lparr>codeHash := ch, address := ad\<rparr>)) ! i)) \<and>
    (ad = None \<or> ch = None \<longrightarrow>
        setProps ch ad s = run_cleanup (s\<lparr>codeHash := ch, address := ad\<rparr>)) \<and>
    (\<forall>a c. ad = Some a \<and> ch = Some c \<longrightarrow>
        fetches (setProps ch ad s) =
          fetches (run_cleanup (s\<lparr>codeHash := ch, address := ad\<rparr>)) @
            [\<lparr>codeHashChanged = False, aborted = False,
              url = ''https://verify.everscan.io/info/code_hash/'' @ c, run_address = a\<rparr>]) \<and>
    everscanAbi (setProps ch ad s) = None \<and>
    (\<forall>i<length (fetches s).
        aborted (fetches (setProps ch ad s) ! i) \<and>
        codeHashChanged (fetches (setProps ch ad s) ! i)) \<and>
    (\<forall>i<length (fetches s). \<forall>evs' e d.
        fetch_then e i d (exec evs' (setProps ch ad s)) = exec evs' (setProps ch ad s)) \<and>
    (\<forall>i e d. i < length (fetches s') \<and> codeHashChanged (fetches s' ! i) \<longrightarrow>
        fetch_then e i d s' = s')"
proof -
  let ?u = "s\<lparr>codeHash := ch, address := ad\<rparr>"
  let ?c = "run_cleanup ?u"
  from reach have "live_inv s" by (simp add: live_inv_exec live_inv_init)
  then have inv: "live_inv ?u" by (simp add: live_inv_props_update)
  have len: "length (fetches ?u) = length (fetches s)" by simp
  have eq: "setProps ch ad s = watch_callback ch ad ?c"
    using changed by (rule setProps_changed)
  have abi: "everscanAbi ?c = None" using inv by (rule run_cleanup_abi)
  have st: "\<forall>i<length (fetches s). stale i ?c"
    using run_cleanup_stale[OF inv] len by simp
  then have st': "\<forall>i<length (fetches s). stale i (setProps ch ad s)"
    by (simp add: eq watch_callback_keeps_stale)
  have late: "\<forall>i<length (fetches s). \<forall>evs' e d.
        fetch_then e i d (exec evs' (setProps ch ad s)) = exec evs' (setProps ch ad s)"
    using st' by (simp add: fetch_then_stale stale_exec)
  have guard: "\<forall>i e d. i < length (fetches s') \<and> codeHashChanged (fetches s' ! i) \<longrightarrow>
        fetch_then e i d s' = s'"
    by (simp add: fetch_then_guard)
  from st have f1: "\<forall>i<length (fetches s). aborted (fetches ?c ! i) \<and> codeHashChanged (fetches ?c ! i)"
    by (simp add: stale_def)
  from st' have f2: "\<forall>i<length (fetches s).
        aborted (fetches (setProps ch ad s) ! i) \<and> codeHashChanged (fetches (setProps ch ad s) ! i)"
    by (simp add: stale_def)
  have abi': "everscanAbi (setProps ch ad s) = None"
    by (simp add: eq watch_callback_abi abi)
  have null: "ad = None \<or> ch = None \<longrightarrow> setProps ch ad s = ?c"
    by (auto simp: eq watch_callback_def split: option.splits)
  have new: "\<forall>a c. ad = Some a \<and> ch = Some c \<longrightarrow>
        fetches (setProps ch ad s) = fetches ?c @
            [\<lparr>codeHashChanged = False, aborted = False,
              url = ''https://verify.everscan.io/info/code_hash/'' @ c, run_address = a\<rparr>]"
    using eq by (auto simp: watch_callback_def)
  from eq abi f1 null new abi' f2 late guard show ?thesis by blast
qed

theorem props_change_supersedes_witness:
  "s_run = exec [(env0, FetchThen 0 (JObj [(''abi'', JArr [])]))]
             (init env0 [(''abi1'', ''{}'')] ''Everscale tools'' (Some ''h1'') (Some ''0:ab'')) \<and>
   everscanAbi s_run = Some ''[]'' \<and> length (fetches s_run) = 1 \<and>
   Some ''h2'' \<noteq> codeHash s_run \<and>
   everscanAbi (setProps (Some ''h2'') (Some ''0:ab'') s_run) = None \<and>
   aborted (fetches (setProps (Some ''h2'') (Some ''0:ab'') s_run) ! 0) \<and>
   codeHashChanged (fetches (setProps (Some ''h2'') (Some ''0:ab'') s_run) ! 0) \<and>
   fetch_then env0 0 (JObj [(''abi'', JArr [])]) (setProps (Some ''h2'') (Some ''0:ab'') s_run) =
     setProps (Some ''h2'') (Some ''0:ab'') s_run \<and>
   None \<noteq> address s_run \<and>
   everscanAbi (setProps (Some ''h1'') None s_run) = None \<and>
   aborted (fetches (setProps (Some ''h1'') None s_run) ! 0) \<and>
   length (fetches (setProps (Some ''h1'') None s_run)) = 1"
proof -
  have r: "s_run = exec [(env0, FetchThen 0 (JObj [(''abi'', JArr [])]))]
             (init env0 [(''abi1'', ''{}'')] ''Everscale tools'' (Some ''h1'') (Some ''0:ab''))"
    by (rule s_run_def)
  have f: "everscanAbi s_run = Some ''[]''" "length (fetches s_run) = 1"
    "codeHash s_run = Some ''h1''" "address s_run = Some ''0:ab''"
    by (simp_all add: s_run_eq)
  have c1: "Some ''h2'' \<noteq> codeHash s_run \<or> Some ''0:ab'' \<noteq> address s_run" by (simp add: f)
  have c2: "Some ''h1'' \<noteq> codeHash s_run \<or> None \<noteq> address s_run" by (simp add: f)
  have l0: "0 < length (fetches s_run)" by (simp add: f)
  note T1 = props_change_supersedes[OF r c1, of s_run]
  note T2 = props_change_supersedes[OF r c2, of s_run]
  from T1 l0 have a: "everscanAbi (setProps (Some ''h2'') (Some ''0:ab'') s_run) = None \<and>
   aborted (fetches (setProps (Some ''h2'') (Some ''0:ab'') s_run) ! 0) \<and>
   codeHashChanged (fetches (setProps (Some ''h2'') (Some ''0:ab'') s_run) ! 0)"
    by blast
  from T1 l0 have "fetch_then env0 0 (JObj [(''abi'', JArr [])])
       (exec [] (setProps (Some ''h2'') (Some ''0:ab'') s_run)) =
        exec [] (setProps (Some ''h2'') (Some ''0:ab'') s_run)"
    by blast
  then have b: "fetch_then env0 0 (JObj [(''abi'', JArr [])])
       (setProps (Some ''h2'') (Some ''0:ab'') s_run) = setProps (Some ''h2'') (Some ''0:ab'') s_run"
    by (simp add: exec_def)
  from T2 l0 have c: "everscanAbi (setProps (Some ''h1'') None s_run) = None \<and>
   aborted (fetches (setProps (Some ''h1'') None s_run) ! 0)"
    by blast
  from T2 have "setProps (Some ''h1'') None s_run =
      run_cleanup (s_run\<lparr>codeHash := Some ''h1'', address := None\<rparr>)" by blast
  then have d: "length (fetches (setProps (Some ''h1'') None s_run)) = 1"
    by (simp add: run_cleanup_length f)
  from r f a b c d show ?thesis by simp
qed

text \<open>
  Claim C7, as amended. The continuation of a run that is not stale sets
  \<open>everscanAbi\<close> to the serialization of the \<^verbatim>\<open>abi\<close> property of the response
  when that property is truthy; a response whose \<^verbatim>\<open>abi\<close> is missing or falsy
  (\<^verbatim>\<open>null\<close>, \<^verbatim>\<open>false\<close>, \<^verbatim>\<open>0\<close>, the empty string) leaves \<open>everscanAbi\<close> as it is.
  \<open>onSubmitEverscanAbi\<close> emits \<open>everscanAbi\<close> when it is set and does nothing
  else; when it is not set it changes nothing. Neither of the two writes to
  the storage or to \<open>storedAbi\<close>.
\<close>

theorem everscan_abi_when_truthy:
  "(\<forall>abi. i < length (fetches s) \<and> \<not> codeHashChanged (fetches s ! i) \<and>
        get_prop data ''abi'' = Some abi \<and> truthy abi \<longrightarrow>
      everscanAbi (fetch_then e i data s) = Some (JSON_stringify e abi)) \<and>
   (\<forall>abi. get_prop data ''abi'' = Some abi \<and> \<not> truthy abi \<longrightarrow>
      everscanAbi (fetch_then e i data s) = everscanAbi s) \<and>
   (get_prop data ''abi'' = None \<longrightarrow> everscanAbi (fetch_then e i data s) = everscanAbi s) \<and>
   (\<forall>a. everscanAbi s = Some a \<longrightarrow>
      onSubmitEverscanAbi s = s\<lparr>emitted := emitted s @ [Some a]\<rparr>) \<and>
   (everscanAbi s = None \<longrightarrow> onSubmitEverscanAbi s = s) \<and>
   localStorage (fetch_then e i data s) = localStorage s \<and>
   storedAbi (fetch_then e i data s) = storedAbi s \<and>
   localStorage (onSubmitEverscanAbi s) = localStorage s \<and>
   storedAbi (onSubmitEverscanAbi s) = storedAbi s"
proof -
  have t: "get_prop data ''abi'' \<noteq> None \<Longrightarrow> truthy data" by (cases data) simp_all
  have a1: "\<forall>abi. i < length (fetches s) \<and> \<not> codeHashChanged (fetches s ! i) \<and>
        get_prop data ''abi'' = Some abi \<and> truthy abi \<longrightarrow>
      everscanAbi (fetch_then e i data s) = Some (JSON_stringify e abi)"
    using t by (auto simp: fetch_then_def then_title_fields then_abi_def)
  have a2: "\<forall>abi. get_prop data ''abi'' = Some abi \<and> \<not> truthy abi \<longrightarrow>
      everscanAbi (fetch_then e i data s) = everscanAbi s"
    by (auto simp: fetch_then_def then_title_fields then_abi_def)
  have a3: "get_prop data ''abi'' = None \<longrightarrow> everscanAbi (fetch_then e i data s) = everscanAbi s"
    by (auto simp: fetch_then_def then_title_fields then_abi_def)
  have a4: "\<forall>a. everscanAbi s = Some a \<longrightarrow>
      onSubmitEverscanAbi s = s\<lparr>emitted := emitted s @ [Some a]\<rparr>"
    by (simp add: onSubmitEverscanAbi_def emit_def)
  have a5: "everscanAbi s = None \<longrightarrow> onSubmitEverscanAbi s = s"
    by (simp add: onSubmitEverscanAbi_def)
  have a6: "localStorage (onSubmitEverscanAbi s) = localStorage s \<and>
   storedAbi (onSubmitEverscanAbi s) = storedAbi s"
    by (simp add: onSubmitEverscanAbi_def emit_def split: option.splits)
  from a1 a2 a3 a4 a5 a6 show ?thesis by (simp add: fetch_then_fields)
qed

theorem everscan_abi_when_truthy_witness:
  "\<not> codeHashChanged (fetches s0 ! 0) \<and>
   get_prop (JObj [(''abi'', JArr [])]) ''abi'' = Some (JArr []) \<and> truthy (JArr []) \<and>
   everscanAbi (fetch_then env0 0 (JObj [(''abi'', JArr [])]) s0) = Some ''[]'' \<and>
   get_prop (JObj [(''abi'', JStr [])]) ''abi'' = Some (JStr []) \<and> \<not> truthy (JStr []) \<and>
   everscanAbi (fetch_then env0 0 (JObj [(''abi'', JStr [])]) s0) = None \<and>
   everscanAbi s_run = Some ''[]'' \<and> emitted (onSubmitEverscanAbi s_run) = [Some ''[]''] \<and>
   everscanAbi s0 = None \<and> onSubmitEverscanAbi s0 = s0"
proof -
  have f: "0 < length (fetches s0) \<and> \<not> codeHashChanged (fetches s0 ! 0)" "everscanAbi s0 = None"
    by (simp_all add: s0_def)
  have g: "get_prop (JObj [(''abi'', JArr [])]) ''abi'' = Some (JArr []) \<and> truthy (JArr [])"
    "get_prop (JObj [(''abi'', JStr [])]) ''abi'' = Some (JStr []) \<and> \<not> truthy (JStr [])"
    by simp_all
  have j: "JSON_stringify env0 (JArr []) = ''[]''" by (simp add: env0_def)
  have r: "everscanAbi s_run = Some ''[]''" "emitted s_run = []" by (simp_all add: s_run_eq)
  from everscan_abi_when_truthy[of 0 s0 "JObj [(''abi'', JArr [])]" env0] f g(1) j
  have a: "everscanAbi (fetch_then env0 0 (JObj [(''abi'', JArr [])]) s0) = Some ''[]''"
    by simp
  from everscan_abi_when_truthy[of 0 s0 "JObj [(''abi'', JStr [])]" env0] f g(2)
  have b: "everscanAbi (fetch_then env0 0 (JObj [(''abi'', JStr [])]) s0) = None"
    by simp
  from everscan_abi_when_truthy[of 0 s_run "JObj [(''abi'', JStr [])]" env0] r
  have c: "emitted (onSubmitEverscanAbi s_run) = [Some ''[]'']" by simp
  from everscan_abi_when_truthy[of 0 s0 "JObj [(''abi'', JStr [])]" env0] f
  have d: "onSubmitEverscanAbi s0 = s0" by simp
  from f g r a b c d show ?thesis by simp
qed

text \<open>
  Claim C7, as stated, fails for the response \<^verbatim>\<open>{"abi": null}\<close> of a live run:
  it has an \<^verbatim>\<open>abi\<close> field and \<open>everscanAbi\<close> stays unset. It also fails for
  a response with an ABI that arrives for a stale run.
\<close>

theorem everscan_abi_null_counterexample:
  "fetches s0 = [\<lparr>codeHashChanged = False, aborted = False,
                  url = ''https://verify.everscan.io/info/code_hash/h1'',
                  run_address = ''0:ab''\<rparr>] \<and>
   get_prop (JObj [(''abi'', JNull)]) ''abi'' = Some JNull \<and>
   everscanAbi (fetch_then env0 0 (JObj [(''abi'', JNull)]) s0) = None \<and>
   everscanAbi (fetch_then env0 0 (JObj [(''abi'', JNull)]) s0) \<noteq> Some (JSON_stringify env0 JNull) \<and>
   codeHashChanged (fetches (run_cleanup s0) ! 0) \<and>
   get_prop (JObj [(''abi'', JArr [])]) ''abi'' = Some (JArr []) \<and>
   everscanAbi (fetch_then env0 0 (JObj [(''abi'', JArr [])]) (run_cleanup s0)) = None \<and>
   everscanAbi (fetch_then env0 0 (JObj [(''abi'', JArr [])]) (run_cleanup s0))
     \<noteq> Some (JSON_stringify env0 (JArr []))"
  by (simp add: s0_def fetch_then_def then_abi_def then_title_def run_cleanup_def)

end
